theory Spec2Isabelle
  imports Main
begin

section \<open>The setup command of Talk (\<open>cli-setup\<close>)\<close>

text \<open>
  The script defines one asynchronous function, \<open>performSetup\<close>, and starts it at
  top level with a \<open>then\<close>/\<open>catch\<close> pair that shuts the process down. Every
  effect of the script is a call to a collaborator (the settings, migration, users
  and setup services, the prompt library, the console). The model records these
  calls, in order, as a trace of events; what each collaborator answers is a field
  of an environment record, so that every theorem holds for all collaborators.
  The registration of the shutdown hook (line 21) and the parsing of the command
  line (lines 27 to 30) are left out, except for the flag \<open>program.defaults\<close>.
\<close>

subsection \<open>Values\<close>

text \<open>
  What a promise can be rejected with. \<open>ErrSettingsInit\<close> and
  \<open>ErrSettingsNotInit\<close> are the two classes imported from \<open>../errors\<close>; they are
  taken to be unrelated classes, so that \<open>err instanceof ErrSettingsNotInit\<close> is
  equality with the second constructor. \<open>Error m\<close> is any other error object, with
  message \<open>m\<close>; \<open>Thrown m\<close> is a bare string, as thrown by
  \<open>throw err.message\<close>.
\<close>

datatype exn = ErrSettingsInit | ErrSettingsNotInit | Error string | Thrown string

type_synonym migration = string

text \<open>
  The fields of the settings model that the script reads or writes. An element of
  the whitelist array is a string, or undefined (\<open>None\<close>): line 136 stores an
  answer that may be undefined.
\<close>

record settings =
  organizationName :: string
  moderation :: string
  requireEmailConfirmation :: bool
  domains_whitelist :: "string option list"

text \<open>The \<open>user\<close> object literal handed to \<open>SetupService.setup\<close>.\<close>

record credentials =
  email :: string
  username :: string
  password :: string

text \<open>The answers of the third prompt: the credentials and the confirmation.\<close>

record user_answers = credentials +
  confirmPassword :: string

record setup_payload =
  payload_settings :: settings
  payload_user :: credentials

text \<open>The user that \<open>SetupService.setup\<close> resolves with; only its id is read.\<close>

record new_user =
  user_id :: string

text \<open>
  The answers of the first prompt. A key of the answers object may be undefined
  (\<open>None\<close>): the script tests for that before copying the answer.
\<close>

record settings_answers =
  organizationName_answer :: "string option"
  moderation_answer :: "string option"
  requireEmailConfirmation_answer :: "bool option"

text \<open>
  The answers of the second prompt. \<open>whitelistedDomain\<close> is undefined when its
  question was skipped.
\<close>

record whitelist_answers =
  inputWhitelistedDomains :: bool
  whitelistedDomain :: "string option"

subsection \<open>Collaborators\<close>

text \<open>
  The answers of the services. A promise that rejects is \<open>Inl\<close>. The two
  validators of the users service are only ever used through
  \<open>.catch(err => { throw err.message; })\<close>, so their rejection is given by the
  message of the error.
\<close>

record env =
  program_defaults :: bool
  SettingsService_retrieve :: "exn + settings"
  SettingsService_init :: "exn + unit"
  MigrationService_listPending :: "exn + migration list"
  MigrationService_run :: "migration list \<Rightarrow> exn + unit"
  SettingModel_new :: settings
  UsersService_isValidUsername :: "string \<Rightarrow> string + string"
  UsersService_isValidPassword :: "string \<Rightarrow> string + string"
  SetupService_setup :: "setup_payload \<Rightarrow> exn + new_user"

text \<open>
  What the person at the terminal submits to each question. A question with a
  \<open>validate\<close> callback may be asked again, so it gets the list of successive
  submissions.
\<close>

record terminal =
  in_organizationName :: "string list"
  in_moderation :: string
  in_requireEmailConfirmation :: bool
  in_inputWhitelistedDomains :: bool
  in_whitelistedDomain :: "string list"
  in_username :: string
  in_email :: "string list"
  in_password :: string
  in_confirmPassword :: string

subsection \<open>Traces and promises\<close>

datatype event =
    Retrieve
  | Init
  | ListPending
  | RunMigrations "migration list"
  | Ask string
  | IsValidUsername string
  | IsValidPassword string
  | Setup setup_payload
  | Log string
  | ConsoleError exn
  | Shutdown "nat option"

text \<open>
  How an awaited promise ends. \<open>Pending\<close> is a promise that never settles: a
  question that is never given an acceptable answer.
\<close>

datatype 'a outcome = Resolved 'a | Rejected exn | Pending

type_synonym 'a io = "event list \<times> 'a outcome"

text \<open>\<open>await m\<close>, then the rest of the function: a rejection is thrown on.\<close>

definition andThen :: "'a io \<Rightarrow> ('a \<Rightarrow> 'b io) \<Rightarrow> 'b io" where
  "andThen m f =
     (case m of
        (t, Resolved x) \<Rightarrow> (case f x of (t', r) \<Rightarrow> (t @ t', r))
      | (t, Rejected e) \<Rightarrow> (t, Rejected e)
      | (t, Pending) \<Rightarrow> (t, Pending))"

definition resolve :: "'a \<Rightarrow> 'a io" where
  "resolve x = ([], Resolved x)"

definition reject :: "exn \<Rightarrow> 'a io" where
  "reject e = ([], Rejected e)"

text \<open>A call to a service: the event, and the answer of the environment.\<close>

definition call :: "event \<Rightarrow> exn + 'a \<Rightarrow> 'a io" where
  "call ev r = ([ev], case r of Inl e \<Rightarrow> Rejected e | Inr v \<Rightarrow> Resolved v)"

definition console_log :: "string \<Rightarrow> unit io" where
  "console_log s = ([Log s], Resolved ())"

subsection \<open>The guard: lines 38 to 53\<close>

text \<open>
  How the \<open>try\<close>/\<open>catch\<close> statement completes: control falls through to the
  statement after it, the function returns, or the function throws.
\<close>

datatype completion = Falls_through | Returns | Throws exn

text \<open>
  The \<open>try\<close> block awaits \<open>SettingsService.retrieve()\<close> and, when that resolves,
  throws a new \<open>ErrSettingsInit\<close>: the block always ends in an exception.
\<close>

definition try_block :: "env \<Rightarrow> exn" where
  "try_block E =
     (case SettingsService_retrieve E of
        Inr _ \<Rightarrow> ErrSettingsInit
      | Inl err \<Rightarrow> err)"

text \<open>The \<open>catch\<close> clause: \<open>return\<close> on \<open>ErrSettingsNotInit\<close>, else rethrow.\<close>

definition catch_clause :: "exn \<Rightarrow> completion" where
  "catch_clause err = (if err = ErrSettingsNotInit then Returns else Throws err)"

definition guard :: "env \<Rightarrow> event list \<times> completion" where
  "guard E = ([Retrieve], catch_clause (try_block E))"

subsection \<open>The defaults branch: lines 55 to 68\<close>

definition msg_settings_created :: string where
  "msg_settings_created = ''Settings created.''"

definition msg_installed :: string where
  "msg_installed = CHR 0x0A # ''Talk is now installed!''"

definition installDefaults :: "env \<Rightarrow> unit io" where
  "installDefaults E =
     andThen (call Init (SettingsService_init E)) (\<lambda>_.
     andThen (call ListPending (MigrationService_listPending E)) (\<lambda>migrations.
     andThen (call (RunMigrations migrations) (MigrationService_run E migrations)) (\<lambda>_.
     andThen (console_log msg_settings_created) (\<lambda>_.
     console_log msg_installed))))"

subsection \<open>The prompt library\<close>

text \<open>What a \<open>validate\<close> callback returns: \<open>true\<close>, or a message.\<close>

datatype validation = Valid | Invalid string

text \<open>
  Modelled from the spec: \<open>inquirer\<close>, the prompt library, is not among the
  sources. Following section 4.2 of the specification, a question whose
  \<open>validate\<close> callback refuses the submitted value is asked again and the run
  goes on (``re-prompt on empty input (does not abort the run)''); when no
  submission is acceptable the prompt never resolves.
\<close>

fun reprompt :: "(string \<Rightarrow> validation) \<Rightarrow> string list \<Rightarrow> string outcome" where
  "reprompt validate [] = Pending"
| "reprompt validate (x # xs) =
     (case validate x of Valid \<Rightarrow> Resolved x | Invalid _ \<Rightarrow> reprompt validate xs)"

definition validated_question ::
  "string \<Rightarrow> (string \<Rightarrow> validation) \<Rightarrow> string list \<Rightarrow> string io" where
  "validated_question name validate submissions =
     ([Ask name], reprompt validate submissions)"

text \<open>
  Modelled from the spec: a question with a \<open>filter\<close> callback has the value the
  callback resolves with as its answer, and a callback that rejects aborts the
  collection with the reason of the rejection (section 4.2: ``a validation failure
  aborts collection'', ``fails immediately'').
\<close>

definition filtered_question :: "string \<Rightarrow> (string \<Rightarrow> string io) \<Rightarrow> string \<Rightarrow> string io" where
  "filtered_question name filter_cb submission =
     andThen ([Ask name], Resolved ()) (\<lambda>_. filter_cb submission)"

text \<open>A question without callbacks: the answer is what was submitted.\<close>

definition plain_question :: "string \<Rightarrow> 'a \<Rightarrow> 'a io" where
  "plain_question name submission = ([Ask name], Resolved submission)"

subsection \<open>The callbacks of the questions\<close>

text \<open>Lines 83 to 89: \<open>input && input.length > 0\<close>.\<close>

definition validate_organizationName :: "string \<Rightarrow> validation" where
  "validate_organizationName input =
     (if input \<noteq> [] \<and> length input > 0 then Valid
      else Invalid ''Organization Name is required.'')"

text \<open>Line 124: the domain is asked for when the gate was answered true.\<close>

definition when_whitelistedDomain :: "bool \<Rightarrow> bool" where
  "when_whitelistedDomain gate = gate"

text \<open>Lines 125 to 131.\<close>

definition validate_whitelistedDomain :: "string \<Rightarrow> validation" where
  "validate_whitelistedDomain input =
     (if input \<noteq> [] \<and> length input > 0 then Valid
      else Invalid ''Whitelisted Domain cannot be empty.'')"

text \<open>Lines 146 to 150.\<close>

definition filter_username :: "env \<Rightarrow> string \<Rightarrow> string io" where
  "filter_username E name =
     ([IsValidUsername name],
      case UsersService_isValidUsername E name of
        Inl message \<Rightarrow> Rejected (Thrown message)
      | Inr v \<Rightarrow> Resolved v)"

text \<open>Lines 156 to 162: \<open>value && value.length >= 3\<close>.\<close>

definition validate_email :: "string \<Rightarrow> validation" where
  "validate_email v =
     (if v \<noteq> [] \<and> length v \<ge> 3 then Valid else Invalid ''Email is required'')"

text \<open>Lines 168 to 172.\<close>

definition filter_password :: "env \<Rightarrow> string \<Rightarrow> string io" where
  "filter_password E pw =
     ([IsValidPassword pw],
      case UsersService_isValidPassword E pw of
        Inl message \<Rightarrow> Rejected (Thrown message)
      | Inr v \<Rightarrow> Resolved v)"

text \<open>
  Lines 178 to 186. The second argument is the \<open>password\<close> key of the answers so
  far, that is, what the filter of the password question resolved with.
\<close>

definition filter_confirmPassword :: "env \<Rightarrow> string \<Rightarrow> string \<Rightarrow> string io" where
  "filter_confirmPassword E confirm pw =
     (if pw \<noteq> confirm then reject (Error ''Passwords do not match'')
      else ([IsValidPassword confirm],
            case UsersService_isValidPassword E confirm of
              Inl message \<Rightarrow> Rejected (Thrown message)
            | Inr v \<Rightarrow> Resolved v))"

subsection \<open>The three prompts\<close>

text \<open>
  Lines 77 to 104. The defaults of the questions only change what the library
  submits for an empty line; the submissions of the terminal are taken after that.
\<close>

definition prompt_settings :: "terminal \<Rightarrow> settings_answers io" where
  "prompt_settings U =
     andThen (validated_question ''organizationName'' validate_organizationName
                (in_organizationName U)) (\<lambda>org.
     andThen (plain_question ''moderation'' (in_moderation U)) (\<lambda>m.
     andThen (plain_question ''requireEmailConfirmation''
                (in_requireEmailConfirmation U)) (\<lambda>c.
     resolve \<lparr>organizationName_answer = Some org,
              moderation_answer = Some m,
              requireEmailConfirmation_answer = Some c\<rparr>)))"

text \<open>Lines 107 to 111: every answer that is not undefined is copied.\<close>

definition update_settings :: "settings_answers \<Rightarrow> settings \<Rightarrow> settings" where
  "update_settings answers s0 =
     (let s1 = (case organizationName_answer answers of
                  None \<Rightarrow> s0 | Some v \<Rightarrow> s0\<lparr>organizationName := v\<rparr>);
          s2 = (case moderation_answer answers of
                  None \<Rightarrow> s1 | Some v \<Rightarrow> s1\<lparr>moderation := v\<rparr>);
          s3 = (case requireEmailConfirmation_answer answers of
                  None \<Rightarrow> s2 | Some v \<Rightarrow> s2\<lparr>requireEmailConfirmation := v\<rparr>)
      in s3)"

text \<open>Lines 113 to 133.\<close>

definition prompt_whitelist :: "terminal \<Rightarrow> whitelist_answers io" where
  "prompt_whitelist U =
     andThen (plain_question ''inputWhitelistedDomains''
                (in_inputWhitelistedDomains U)) (\<lambda>gate.
     if when_whitelistedDomain gate
     then andThen (validated_question ''whitelistedDomain'' validate_whitelistedDomain
                     (in_whitelistedDomain U)) (\<lambda>d.
          resolve \<lparr>inputWhitelistedDomains = gate, whitelistedDomain = Some d\<rparr>)
     else resolve \<lparr>inputWhitelistedDomains = gate, whitelistedDomain = None\<rparr>)"

text \<open>
  Lines 135 to 137: the whitelist becomes the array literal
  \<open>[answers.whitelistedDomain]\<close>, of one element whatever the answer is.
\<close>

definition set_whitelist :: "whitelist_answers \<Rightarrow> settings \<Rightarrow> settings" where
  "set_whitelist answers s =
     (if inputWhitelistedDomains answers
      then s\<lparr>domains_whitelist := [whitelistedDomain answers]\<rparr>
      else s)"

text \<open>Lines 141 to 188.\<close>

definition prompt_user :: "env \<Rightarrow> terminal \<Rightarrow> user_answers io" where
  "prompt_user E U =
     andThen (filtered_question ''username'' (filter_username E) (in_username U)) (\<lambda>un.
     andThen (validated_question ''email'' validate_email (in_email U)) (\<lambda>em.
     andThen (filtered_question ''password'' (filter_password E) (in_password U)) (\<lambda>pw.
     andThen (filtered_question ''confirmPassword''
                (\<lambda>confirm. filter_confirmPassword E confirm pw)
                (in_confirmPassword U)) (\<lambda>cpw.
     resolve \<lparr>email = em, username = un, password = pw, confirmPassword = cpw\<rparr>))))"

subsection \<open>The interactive branch: lines 70 to 205\<close>

definition msg_settings_questions :: string where
  "msg_settings_questions =
     CHR 0x0A # ''We'' @ CHR 0x27 #
     ''ll ask you some questions in order to setup your installation of Talk.''
     @ [CHR 0x0A]"

definition msg_user_questions :: string where
  "msg_user_questions =
     CHR 0x0A # ''We'' @ CHR 0x27 #
     ''ll ask you some questions about your first admin user.'' @ [CHR 0x0A]"

definition msg_user_created :: "new_user \<Rightarrow> string" where
  "msg_user_created u = ''User '' @ user_id u @ '' created.''"

definition msg_install_lock :: string where
  "msg_install_lock =
     CHR 0x0A # ''We recommend adding TALK_INSTALL_LOCK=TRUE to your environment to turn off the dynamic setup.''"

definition installInteractive :: "env \<Rightarrow> terminal \<Rightarrow> unit io" where
  "installInteractive E U =
     (let settings = SettingModel_new E in
      andThen (console_log msg_settings_questions) (\<lambda>_.
      andThen (prompt_settings U) (\<lambda>answers.
      let settings = update_settings answers settings in
      andThen (prompt_whitelist U) (\<lambda>answers.
      let settings = set_whitelist answers settings in
      andThen (console_log msg_user_questions) (\<lambda>_.
      andThen (prompt_user E U) (\<lambda>user.
      let payload = \<lparr>payload_settings = settings,
                     payload_user = \<lparr>email = email user,
                                      username = username user,
                                      password = password user\<rparr>\<rparr> in
      andThen (call (Setup payload) (SetupService_setup E payload)) (\<lambda>newUser.
      andThen (console_log msg_settings_created) (\<lambda>_.
      andThen (console_log (msg_user_created newUser)) (\<lambda>_.
      andThen (console_log msg_installed) (\<lambda>_.
      console_log msg_install_lock))))))))))"

subsection \<open>\<open>performSetup\<close> and the top level\<close>

text \<open>The statements after the guard, from line 55 on.\<close>

definition afterGuard :: "env \<Rightarrow> terminal \<Rightarrow> unit io" where
  "afterGuard E U =
     (if program_defaults E then installDefaults E else installInteractive E U)"

text \<open>Lines 36 to 206.\<close>

definition performSetup :: "env \<Rightarrow> terminal \<Rightarrow> unit io" where
  "performSetup E U =
     (case guard E of
        (t, Returns) \<Rightarrow> (t, Resolved ())
      | (t, Throws err) \<Rightarrow> (t, Rejected err)
      | (t, Falls_through) \<Rightarrow> andThen (t, Resolved ()) (\<lambda>_. afterGuard E U))"

text \<open>
  Modelled from the spec: \<open>util.shutdown\<close> is not among the sources. Following
  section 6 of the specification the process exits with the code it is given, and
  with 0 when it is given none.
\<close>

definition shutdown :: "nat option \<Rightarrow> nat" where
  "shutdown code = (case code of None \<Rightarrow> 0 | Some c \<Rightarrow> c)"

text \<open>
  Lines 209 to 216: the trace of the whole process and its exit code (\<open>None\<close> when
  \<open>performSetup\<close> never settles).
\<close>

definition main :: "env \<Rightarrow> terminal \<Rightarrow> event list \<times> nat option" where
  "main E U =
     (case performSetup E U of
        (t, Resolved _) \<Rightarrow> (t @ [Shutdown None], Some (shutdown None))
      | (t, Rejected e) \<Rightarrow> (t @ [ConsoleError e, Shutdown (Some 1)], Some (shutdown (Some 1)))
      | (t, Pending) \<Rightarrow> (t, None))"

subsection \<open>Reading a trace\<close>

text \<open>The calls that write: the settings, the accounts, the schema.\<close>

fun is_write :: "event \<Rightarrow> bool" where
  "is_write Init = True"
| "is_write (RunMigrations _) = True"
| "is_write (Setup _) = True"
| "is_write _ = False"

text \<open>The calls to the migration service.\<close>

fun is_migration_call :: "event \<Rightarrow> bool" where
  "is_migration_call ListPending = True"
| "is_migration_call (RunMigrations _) = True"
| "is_migration_call _ = False"

text \<open>The lines of the success report.\<close>

fun is_success_report :: "event \<Rightarrow> bool" where
  "is_success_report (Log s) =
     (s = msg_settings_created \<or> s = msg_installed \<or> s = msg_install_lock
      \<or> (take 5 s = ''User '' \<and> drop (length s - 9) s = '' created.''))"
| "is_success_report _ = False"

subsection \<open>Concrete collaborators and terminal sessions\<close>

text \<open>
  A store that holds no settings yet, with two pending migrations, a users service
  that wants a username and a password of eight characters, and a setup service
  that creates user 1.
\<close>

definition engine_defaults :: settings where
  "engine_defaults =
     \<lparr>organizationName = [], moderation = ''PRE'',
      requireEmailConfirmation = False, domains_whitelist = [Some ''localhost'']\<rparr>"

definition fresh_env :: "bool \<Rightarrow> env" where
  "fresh_env defaults =
     \<lparr>program_defaults = defaults,
      SettingsService_retrieve = Inl ErrSettingsNotInit,
      SettingsService_init = Inr (),
      MigrationService_listPending = Inr [''m1'', ''m2''],
      MigrationService_run = (\<lambda>_. Inr ()),
      SettingModel_new = engine_defaults,
      UsersService_isValidUsername =
        (\<lambda>u. if u = [] then Inl ''Username is required'' else Inr u),
      UsersService_isValidPassword =
        (\<lambda>p. if length p < 8 then Inl ''Password is too short'' else Inr p),
      SetupService_setup = (\<lambda>_. Inr \<lparr>user_id = ''1''\<rparr>)\<rparr>"

text \<open>The same collaborators on a store that already holds settings.\<close>

definition installed_env :: "bool \<Rightarrow> env" where
  "installed_env defaults =
     (fresh_env defaults)\<lparr>SettingsService_retrieve := Inr engine_defaults\<rparr>"

text \<open>
  The session of the end-to-end scenario of the specification; the organization
  name is first left empty.
\<close>

definition acme_terminal :: terminal where
  "acme_terminal =
     \<lparr>in_organizationName = [[], ''Acme''],
      in_moderation = ''PRE'',
      in_requireEmailConfirmation = True,
      in_inputWhitelistedDomains = False,
      in_whitelistedDomain = [],
      in_username = ''admin'',
      in_email = [''a@b.com''],
      in_password = ''Str0ngPass!'',
      in_confirmPassword = ''Str0ngPass!''\<rparr>"

definition acme_settings :: settings where
  "acme_settings =
     \<lparr>organizationName = ''Acme'', moderation = ''PRE'',
      requireEmailConfirmation = True, domains_whitelist = [Some ''localhost'']\<rparr>"

definition acme_credentials :: credentials where
  "acme_credentials =
     \<lparr>email = ''a@b.com'', username = ''admin'', password = ''Str0ngPass!''\<rparr>"

text \<open>The same session with a confirmation that differs from the password.\<close>

definition mismatch_terminal :: terminal where
  "mismatch_terminal =
     acme_terminal\<lparr>in_password := ''Abc12345'', in_confirmPassword := ''different''\<rparr>"

text \<open>The same session with a whitelisted domain, first left empty.\<close>

definition example_com_terminal :: terminal where
  "example_com_terminal =
     acme_terminal\<lparr>in_inputWhitelistedDomains := True,
                    in_whitelistedDomain := [[], ''example.com'']\<rparr>"

section \<open>Laws of the building blocks\<close>

lemma andThen_Resolved [simp]:
  "andThen (t, Resolved x) f = (t @ fst (f x), snd (f x))"
  by (simp add: andThen_def split: prod.splits)

lemma andThen_Rejected [simp]: "andThen (t, Rejected e) f = (t, Rejected e)"
  by (simp add: andThen_def)

lemma andThen_Pending [simp]: "andThen (t, Pending) f = (t, Pending)"
  by (simp add: andThen_def)

lemma fst_andThen:
  "fst (andThen m f) = fst m @ (case snd m of Resolved x \<Rightarrow> fst (f x) | _ \<Rightarrow> [])"
  by (cases m; cases "snd m") (auto simp: andThen_def split: prod.splits)

lemma snd_andThen:
  "snd (andThen m f) =
     (case snd m of Resolved x \<Rightarrow> snd (f x) | Rejected e \<Rightarrow> Rejected e | Pending \<Rightarrow> Pending)"
  by (cases m; cases "snd m") (auto simp: andThen_def split: prod.splits)

lemmas io_defs = validated_question_def filtered_question_def plain_question_def
  resolve_def reject_def call_def console_log_def

text \<open>A validated question never rejects, and its answer passed the validation.\<close>

lemma reprompt_Rejected [simp]: "reprompt v xs \<noteq> Rejected e"
  by (induction xs) (auto split: validation.splits)

lemma reprompt_Resolved: "reprompt v xs = Resolved x \<Longrightarrow> v x = Valid"
  by (induction xs) (auto split: validation.splits)

lemma reprompt_member: "reprompt v xs = Resolved x \<Longrightarrow> x \<in> set xs"
  by (induction xs) (auto split: validation.splits)

lemma whitelistedDomain_nonempty:
  "reprompt validate_whitelistedDomain xs = Resolved d \<Longrightarrow> d \<noteq> []"
  by (drule reprompt_Resolved) (simp add: validate_whitelistedDomain_def split: if_splits)

section \<open>What the guard does\<close>

text \<open>
  The \<open>try\<close> block always throws and the \<open>catch\<close> clause either returns or
  rethrows, so control never reaches the statement after the guard.
\<close>

lemma guard_never_falls_through: "snd (guard E) \<noteq> Falls_through"
  by (simp add: guard_def catch_clause_def)

lemma performSetup_eq:
  "performSetup E U =
     ([Retrieve],
      case SettingsService_retrieve E of
        Inr _ \<Rightarrow> Rejected ErrSettingsInit
      | Inl err \<Rightarrow> if err = ErrSettingsNotInit then Resolved () else Rejected err)"
  by (simp add: performSetup_def guard_def try_block_def catch_clause_def split: sum.splits)

lemma main_eq:
  "main E U =
     (case snd (performSetup E U) of
        Resolved _ \<Rightarrow> (fst (performSetup E U) @ [Shutdown None], Some 0)
      | Rejected e \<Rightarrow> (fst (performSetup E U) @ [ConsoleError e, Shutdown (Some 1)], Some 1)
      | Pending \<Rightarrow> (fst (performSetup E U), None))"
  by (cases "performSetup E U") (simp add: main_def shutdown_def split: outcome.splits)

text \<open>
  So the process never asks a question and never writes: whatever the collaborators
  and the terminal, its trace is the retrieval followed by the shutdown.
\<close>

lemma main_trace:
  "fst (main E U) = [Retrieve, Shutdown None]
   \<or> (\<exists>e. fst (main E U) = [Retrieve, ConsoleError e, Shutdown (Some 1)])"
  by (simp add: main_eq performSetup_eq split: sum.splits)

lemma no_run_writes: "filter is_write (fst (main E U)) = []"
  using main_trace [of E U] by auto

text \<open>Every rejection is printed to the error stream and exits with code 1.\<close>

lemma failure_is_reported:
  assumes "snd (performSetup E U) = Rejected e"
  shows "main E U = ([Retrieve, ConsoleError e, Shutdown (Some 1)], Some 1)"
  using assms by (simp add: main_eq) (simp add: performSetup_eq)

section \<open>What the branches after the guard do\<close>

lemma installDefaults_eq:
  "installDefaults E =
     (case SettingsService_init E of
        Inl e \<Rightarrow> ([Init], Rejected e)
      | Inr _ \<Rightarrow>
          (case MigrationService_listPending E of
             Inl e \<Rightarrow> ([Init, ListPending], Rejected e)
           | Inr ms \<Rightarrow>
               (case MigrationService_run E ms of
                  Inl e \<Rightarrow> ([Init, ListPending, RunMigrations ms], Rejected e)
                | Inr _ \<Rightarrow>
                    ([Init, ListPending, RunMigrations ms,
                      Log msg_settings_created, Log msg_installed], Resolved ()))))"
  by (simp add: installDefaults_def io_defs split: sum.splits)

lemma prompt_settings_eq:
  "prompt_settings U =
     (case reprompt validate_organizationName (in_organizationName U) of
        Resolved org \<Rightarrow>
          ([Ask ''organizationName'', Ask ''moderation'', Ask ''requireEmailConfirmation''],
           Resolved \<lparr>organizationName_answer = Some org,
                     moderation_answer = Some (in_moderation U),
                     requireEmailConfirmation_answer = Some (in_requireEmailConfirmation U)\<rparr>)
      | Rejected e \<Rightarrow> ([Ask ''organizationName''], Rejected e)
      | Pending \<Rightarrow> ([Ask ''organizationName''], Pending))"
  by (simp add: prompt_settings_def io_defs split: outcome.splits)

lemma prompt_whitelist_eq:
  "prompt_whitelist U =
     (if in_inputWhitelistedDomains U then
        (case reprompt validate_whitelistedDomain (in_whitelistedDomain U) of
           Resolved d \<Rightarrow>
             ([Ask ''inputWhitelistedDomains'', Ask ''whitelistedDomain''],
              Resolved \<lparr>inputWhitelistedDomains = True, whitelistedDomain = Some d\<rparr>)
         | Rejected e \<Rightarrow> ([Ask ''inputWhitelistedDomains'', Ask ''whitelistedDomain''], Rejected e)
         | Pending \<Rightarrow> ([Ask ''inputWhitelistedDomains'', Ask ''whitelistedDomain''], Pending))
      else ([Ask ''inputWhitelistedDomains''],
            Resolved \<lparr>inputWhitelistedDomains = False, whitelistedDomain = None\<rparr>))"
  by (simp add: prompt_whitelist_def when_whitelistedDomain_def io_defs split: outcome.splits)

text \<open>A true gate always comes with a domain.\<close>

lemma prompt_whitelist_gate:
  assumes "snd (prompt_whitelist U) = Resolved a" and "inputWhitelistedDomains a"
  shows "\<exists>d. whitelistedDomain a = Some d \<and> d \<noteq> []"
  using assms
  by (auto simp add: prompt_whitelist_eq whitelistedDomain_nonempty
      split: if_splits outcome.splits)

lemma prompt_user_eq:
  "prompt_user E U =
     (case UsersService_isValidUsername E (in_username U) of
        Inl m \<Rightarrow> ([Ask ''username'', IsValidUsername (in_username U)], Rejected (Thrown m))
      | Inr un \<Rightarrow>
          (case reprompt validate_email (in_email U) of
             Pending \<Rightarrow>
               ([Ask ''username'', IsValidUsername (in_username U), Ask ''email''], Pending)
           | Rejected e \<Rightarrow>
               ([Ask ''username'', IsValidUsername (in_username U), Ask ''email''], Rejected e)
           | Resolved em \<Rightarrow>
               (case UsersService_isValidPassword E (in_password U) of
                  Inl m \<Rightarrow>
                    ([Ask ''username'', IsValidUsername (in_username U), Ask ''email'',
                      Ask ''password'', IsValidPassword (in_password U)], Rejected (Thrown m))
                | Inr pw \<Rightarrow>
                    (if pw \<noteq> in_confirmPassword U then
                       ([Ask ''username'', IsValidUsername (in_username U), Ask ''email'',
                         Ask ''password'', IsValidPassword (in_password U),
                         Ask ''confirmPassword''],
                        Rejected (Error ''Passwords do not match''))
                     else
                       (case UsersService_isValidPassword E (in_confirmPassword U) of
                          Inl m \<Rightarrow>
                            ([Ask ''username'', IsValidUsername (in_username U), Ask ''email'',
                              Ask ''password'', IsValidPassword (in_password U),
                              Ask ''confirmPassword'', IsValidPassword (in_confirmPassword U)],
                             Rejected (Thrown m))
                        | Inr cpw \<Rightarrow>
                            ([Ask ''username'', IsValidUsername (in_username U), Ask ''email'',
                              Ask ''password'', IsValidPassword (in_password U),
                              Ask ''confirmPassword'', IsValidPassword (in_confirmPassword U)],
                             Resolved \<lparr>email = em, username = un, password = pw,
                                       confirmPassword = cpw\<rparr>))))))"
  by (simp add: prompt_user_def filter_username_def filter_password_def
      filter_confirmPassword_def io_defs split: sum.splits outcome.splits)

lemma fst_installInteractive:
  "fst (installInteractive E U) =
     Log msg_settings_questions # fst (prompt_settings U) @
     (case snd (prompt_settings U) of
        Resolved a1 \<Rightarrow>
          fst (prompt_whitelist U) @
          (case snd (prompt_whitelist U) of
             Resolved a2 \<Rightarrow>
               Log msg_user_questions # fst (prompt_user E U) @
               (case snd (prompt_user E U) of
                  Resolved user \<Rightarrow>
                    Setup \<lparr>payload_settings =
                             set_whitelist a2 (update_settings a1 (SettingModel_new E)),
                           payload_user = \<lparr>email = email user, username = username user,
                                            password = password user\<rparr>\<rparr> #
                    (case SetupService_setup E
                            \<lparr>payload_settings =
                               set_whitelist a2 (update_settings a1 (SettingModel_new E)),
                             payload_user = \<lparr>email = email user, username = username user,
                                              password = password user\<rparr>\<rparr> of
                       Inr newUser \<Rightarrow>
                         [Log msg_settings_created, Log (msg_user_created newUser),
                          Log msg_installed, Log msg_install_lock]
                     | Inl e \<Rightarrow> [])
                | _ \<Rightarrow> [])
           | _ \<Rightarrow> [])
      | _ \<Rightarrow> [])"
  by (simp add: installInteractive_def fst_andThen snd_andThen call_def console_log_def Let_def
      split: outcome.splits sum.splits)

lemma snd_installInteractive:
  "snd (installInteractive E U) =
     (case snd (prompt_settings U) of
        Resolved a1 \<Rightarrow>
          (case snd (prompt_whitelist U) of
             Resolved a2 \<Rightarrow>
               (case snd (prompt_user E U) of
                  Resolved user \<Rightarrow>
                    (case SetupService_setup E
                            \<lparr>payload_settings =
                               set_whitelist a2 (update_settings a1 (SettingModel_new E)),
                             payload_user = \<lparr>email = email user, username = username user,
                                              password = password user\<rparr>\<rparr> of
                       Inr newUser \<Rightarrow> Resolved ()
                     | Inl e \<Rightarrow> Rejected e)
                | Rejected e \<Rightarrow> Rejected e
                | Pending \<Rightarrow> Pending)
           | Rejected e \<Rightarrow> Rejected e
           | Pending \<Rightarrow> Pending)
      | Rejected e \<Rightarrow> Rejected e
      | Pending \<Rightarrow> Pending)"
  by (simp add: installInteractive_def fst_andThen snd_andThen call_def console_log_def Let_def
      split: outcome.splits sum.splits)

lemmas trace_eqs = fst_installInteractive prompt_settings_eq prompt_whitelist_eq prompt_user_eq

text \<open>A run after the guard that fails has printed no line of the success report.\<close>

lemma questions_are_no_success_report:
  "\<not> is_success_report (Log msg_settings_questions)"
  "\<not> is_success_report (Log msg_user_questions)"
  by (simp_all add: msg_settings_questions_def msg_user_questions_def msg_settings_created_def
      msg_installed_def msg_install_lock_def)

lemma setup_is_no_success_report: "\<not> is_success_report (Setup p)"
  by simp

lemma prompts_print_no_success_report:
  "filter is_success_report (fst (prompt_settings U)) = []"
  "filter is_success_report (fst (prompt_whitelist U)) = []"
  "filter is_success_report (fst (prompt_user E U)) = []"
  by (simp_all add: prompt_settings_eq prompt_whitelist_eq prompt_user_eq
      split: outcome.splits sum.splits)

lemma afterGuard_failure_without_success_report:
  assumes "snd (afterGuard E U) = Rejected e"
  shows "filter is_success_report (fst (afterGuard E U)) = []"
proof (cases "program_defaults E")
  case True
  with assms show ?thesis
    by (auto simp add: afterGuard_def installDefaults_eq split: sum.splits)
next
  case False
  with assms show ?thesis
    by (auto simp add: afterGuard_def fst_installInteractive snd_installInteractive
        questions_are_no_success_report prompts_print_no_success_report
        setup_is_no_success_report simp del: is_success_report.simps
        split: outcome.splits sum.splits)
qed

section \<open>The concrete sessions\<close>

lemmas example_defs = fresh_env_def installed_env_def engine_defaults_def acme_terminal_def
  acme_settings_def acme_credentials_def mismatch_terminal_def example_com_terminal_def

lemmas callback_defs = validate_organizationName_def validate_whitelistedDomain_def
  validate_email_def when_whitelistedDomain_def update_settings_def set_whitelist_def

lemma acme_run:
  "installInteractive (fresh_env False) acme_terminal =
     ([Log msg_settings_questions,
       Ask ''organizationName'', Ask ''moderation'', Ask ''requireEmailConfirmation'',
       Ask ''inputWhitelistedDomains'',
       Log msg_user_questions,
       Ask ''username'', IsValidUsername ''admin'', Ask ''email'',
       Ask ''password'', IsValidPassword ''Str0ngPass!'',
       Ask ''confirmPassword'', IsValidPassword ''Str0ngPass!'',
       Setup \<lparr>payload_settings = acme_settings, payload_user = acme_credentials\<rparr>,
       Log msg_settings_created, Log (msg_user_created \<lparr>user_id = ''1''\<rparr>),
       Log msg_installed, Log msg_install_lock],
      Resolved ())"
  by (simp add: prod_eq_iff fst_installInteractive snd_installInteractive
      prompt_settings_eq prompt_whitelist_eq prompt_user_eq example_defs callback_defs)

lemma mismatch_run:
  "installInteractive (fresh_env False) mismatch_terminal =
     ([Log msg_settings_questions,
       Ask ''organizationName'', Ask ''moderation'', Ask ''requireEmailConfirmation'',
       Ask ''inputWhitelistedDomains'',
       Log msg_user_questions,
       Ask ''username'', IsValidUsername ''admin'', Ask ''email'',
       Ask ''password'', IsValidPassword ''Abc12345'',
       Ask ''confirmPassword''],
      Rejected (Error ''Passwords do not match''))"
  by (simp add: prod_eq_iff fst_installInteractive snd_installInteractive
      prompt_settings_eq prompt_whitelist_eq prompt_user_eq example_defs callback_defs)

lemma example_com_run:
  "installInteractive (fresh_env False) example_com_terminal =
     ([Log msg_settings_questions,
       Ask ''organizationName'', Ask ''moderation'', Ask ''requireEmailConfirmation'',
       Ask ''inputWhitelistedDomains'', Ask ''whitelistedDomain'',
       Log msg_user_questions,
       Ask ''username'', IsValidUsername ''admin'', Ask ''email'',
       Ask ''password'', IsValidPassword ''Str0ngPass!'',
       Ask ''confirmPassword'', IsValidPassword ''Str0ngPass!'',
       Setup \<lparr>payload_settings = acme_settings\<lparr>domains_whitelist := [Some ''example.com'']\<rparr>,
              payload_user = acme_credentials\<rparr>,
       Log msg_settings_created, Log (msg_user_created \<lparr>user_id = ''1''\<rparr>),
       Log msg_installed, Log msg_install_lock],
      Resolved ())"
  by (simp add: prod_eq_iff fst_installInteractive snd_installInteractive
      prompt_settings_eq prompt_whitelist_eq prompt_user_eq example_defs callback_defs)

section \<open>The claims\<close>

text \<open>
  Claim C1 says that when \<open>SettingsService.retrieve()\<close> fails with
  \<open>ErrSettingsNotInit\<close> the run goes on past the guard, collects the
  configuration and persists the settings. The \<open>catch\<close> clause returns from
  \<open>performSetup\<close> instead (line 49). On the store without settings and the
  interactive session of the end-to-end scenario, the whole of \<open>performSetup\<close> is
  the call to \<open>retrieve\<close>: no question is asked and nothing is persisted.
\<close>

theorem not_init_interactive_run_stops_at_guard:
  "SettingsService_retrieve (fresh_env False) = Inl ErrSettingsNotInit
   \<and> performSetup (fresh_env False) acme_terminal = ([Retrieve], Resolved ())"
  by (simp add: performSetup_eq fresh_env_def)

text \<open>
  Claim C2: when \<open>SettingsService.retrieve()\<close> resolves (the store already holds
  settings), \<open>performSetup\<close> rejects with \<open>ErrSettingsInit\<close>, the only call made
  is the retrieval (no settings are created, no account, no migration is run), the
  error is printed and the process is shut down with code 1.
\<close>

theorem already_installed_fails_without_writes:
  assumes "SettingsService_retrieve E = Inr s"
  shows "performSetup E U = ([Retrieve], Rejected ErrSettingsInit)
       \<and> main E U = ([Retrieve, ConsoleError ErrSettingsInit, Shutdown (Some 1)], Some 1)
       \<and> filter is_write (fst (main E U)) = []"
  using assms by (simp add: main_eq) (simp add: performSetup_eq)

theorem already_installed_fails_without_writes_witness:
  "SettingsService_retrieve (installed_env False) = Inr engine_defaults
   \<and> performSetup (installed_env False) acme_terminal = ([Retrieve], Rejected ErrSettingsInit)
   \<and> main (installed_env False) acme_terminal
       = ([Retrieve, ConsoleError ErrSettingsInit, Shutdown (Some 1)], Some 1)
   \<and> filter is_write (fst (main (installed_env False) acme_terminal)) = []"
proof -
  have h: "SettingsService_retrieve (installed_env False) = Inr engine_defaults"
    by (simp add: installed_env_def)
  from already_installed_fails_without_writes [OF h, of acme_terminal] h show ?thesis by simp
qed

text \<open>
  Claim C4 says that a run with \<open>--defaults\<close> on a store without settings creates
  one settings record and runs the pending migrations. The defaults branch would
  do so (lemma \<open>installDefaults_eq\<close>), but it is never reached: on that store the
  process calls \<open>retrieve\<close> and shuts down, \<open>SettingsService.init()\<close> is not
  called and the migration service is not called.
\<close>

theorem not_init_defaults_run_creates_nothing:
  "program_defaults (fresh_env True)
   \<and> SettingsService_retrieve (fresh_env True) = Inl ErrSettingsNotInit
   \<and> fst (main (fresh_env True) acme_terminal) = [Retrieve, Shutdown None]
   \<and> Init \<notin> set (fst (main (fresh_env True) acme_terminal))
   \<and> filter is_migration_call (fst (main (fresh_env True) acme_terminal)) = []"
  by (simp add: main_def performSetup_eq fresh_env_def)




text \<open>
  Claim C6: in an interactive run that gets to \<open>SetupService.setup\<close> with the gate
  question answered true, the domain whitelist of the settings handed over is the
  one-element list of the captured domain, which is not empty, whatever whitelist
  the fresh settings model came with.
\<close>

theorem whitelist_replaced:
  assumes "Setup p \<in> set (fst (installInteractive E U))"
      and "in_inputWhitelistedDomains U"
  shows "\<exists>d. reprompt validate_whitelistedDomain (in_whitelistedDomain U) = Resolved d
           \<and> d \<noteq> []
           \<and> domains_whitelist (payload_settings p) = [Some d]"
proof -
  from assms obtain d where
    d: "reprompt validate_whitelistedDomain (in_whitelistedDomain U) = Resolved d"
    and p: "domains_whitelist (payload_settings p) = [Some d]"
    by (auto simp add: trace_eqs set_whitelist_def
        split: outcome.splits sum.splits if_splits)
  from d have "d \<noteq> []" by (rule whitelistedDomain_nonempty)
  with d p show ?thesis by blast
qed

theorem whitelist_replaced_witness:
  "Setup \<lparr>payload_settings = acme_settings\<lparr>domains_whitelist := [Some ''example.com'']\<rparr>,
          payload_user = acme_credentials\<rparr>
     \<in> set (fst (installInteractive (fresh_env False) example_com_terminal))
   \<and> in_inputWhitelistedDomains example_com_terminal
   \<and> domains_whitelist (SettingModel_new (fresh_env False)) = [Some ''localhost'']
   \<and> reprompt validate_whitelistedDomain (in_whitelistedDomain example_com_terminal)
       = Resolved ''example.com''
   \<and> domains_whitelist
        (payload_settings
          \<lparr>payload_settings = acme_settings\<lparr>domains_whitelist := [Some ''example.com'']\<rparr>,
           payload_user = acme_credentials\<rparr>) = [Some ''example.com'']"
proof -
  have sent:
    "Setup \<lparr>payload_settings = acme_settings\<lparr>domains_whitelist := [Some ''example.com'']\<rparr>,
            payload_user = acme_credentials\<rparr>
       \<in> set (fst (installInteractive (fresh_env False) example_com_terminal))"
    by (simp add: example_com_run)
  have gate: "in_inputWhitelistedDomains example_com_terminal"
    by (simp add: example_defs)
  have prior: "domains_whitelist (SettingModel_new (fresh_env False)) = [Some ''localhost'']"
    by (simp add: example_defs)
  have domain: "reprompt validate_whitelistedDomain (in_whitelistedDomain example_com_terminal)
                  = Resolved ''example.com''"
    by (simp add: example_defs validate_whitelistedDomain_def)
  from whitelist_replaced [OF sent gate] domain
  have "domains_whitelist
          (payload_settings
            \<lparr>payload_settings = acme_settings\<lparr>domains_whitelist := [Some ''example.com'']\<rparr>,
             payload_user = acme_credentials\<rparr>) = [Some ''example.com'']"
    by auto
  with sent gate prior domain show ?thesis by blast
qed

text \<open>
  Claim C7: in an interactive run with the gate question answered false, the
  domain question is not asked, and the settings handed to \<open>SetupService.setup\<close>
  have the domain whitelist of the fresh settings model.
\<close>

theorem whitelist_untouched:
  assumes "\<not> in_inputWhitelistedDomains U"
  shows "Ask ''whitelistedDomain'' \<notin> set (fst (installInteractive E U))
       \<and> (\<forall>p. Setup p \<in> set (fst (installInteractive E U)) \<longrightarrow>
              domains_whitelist (payload_settings p) = domains_whitelist (SettingModel_new E))"
  using assms
  by (auto simp add: trace_eqs set_whitelist_def update_settings_def
      split: outcome.splits sum.splits if_splits)

theorem whitelist_untouched_witness:
  "\<not> in_inputWhitelistedDomains acme_terminal
   \<and> Ask ''whitelistedDomain'' \<notin> set (fst (installInteractive (fresh_env False) acme_terminal))
   \<and> Setup \<lparr>payload_settings = acme_settings, payload_user = acme_credentials\<rparr>
       \<in> set (fst (installInteractive (fresh_env False) acme_terminal))
   \<and> domains_whitelist
        (payload_settings \<lparr>payload_settings = acme_settings, payload_user = acme_credentials\<rparr>)
       = domains_whitelist (SettingModel_new (fresh_env False))"
proof -
  have gate: "\<not> in_inputWhitelistedDomains acme_terminal"
    by (simp add: example_defs)
  have sent: "Setup \<lparr>payload_settings = acme_settings, payload_user = acme_credentials\<rparr>
                \<in> set (fst (installInteractive (fresh_env False) acme_terminal))"
    by (simp add: acme_run)
  from whitelist_untouched [OF gate, of "fresh_env False"] sent gate show ?thesis by blast
qed

text \<open>
  Claim C8 says that the process exits with code 0 only when the run reaches the
  state \<open>Done\<close>. On a store without settings the process exits with code 0 although
  nothing was written and no line of the success report was printed: the return
  of line 49 resolves \<open>performSetup\<close>, and the top level shuts down without a code.
  (The rest of the claim holds: lemmas \<open>failure_is_reported\<close> and
  \<open>afterGuard_failure_without_success_report\<close>.)
\<close>

theorem exit_zero_without_install:
  "snd (main (fresh_env False) example_com_terminal) = Some 0
   \<and> filter is_write (fst (main (fresh_env False) example_com_terminal)) = []
   \<and> filter is_success_report (fst (main (fresh_env False) example_com_terminal)) = []"
  by (simp add: main_def performSetup_eq fresh_env_def shutdown_def)

text \<open>
  Claim C9: when \<open>SettingsService.retrieve()\<close> rejects with \<open>ErrSettingsNotInit\<close>,
  \<open>performSetup\<close> returns right after the guard; the process calls \<open>retrieve\<close>
  and \<open>util.shutdown()\<close> and nothing else (no settings init, no question, no
  account, no migration listed or run), and exits with code 0.
\<close>

theorem not_init_returns_without_effects:
  assumes "SettingsService_retrieve E = Inl ErrSettingsNotInit"
  shows "performSetup E U = ([Retrieve], Resolved ())
       \<and> main E U = ([Retrieve, Shutdown None], Some 0)"
  using assms by (simp add: main_eq) (simp add: performSetup_eq)

theorem not_init_returns_without_effects_witness:
  "SettingsService_retrieve (fresh_env True) = Inl ErrSettingsNotInit
   \<and> performSetup (fresh_env True) mismatch_terminal = ([Retrieve], Resolved ())
   \<and> main (fresh_env True) mismatch_terminal = ([Retrieve, Shutdown None], Some 0)"
proof -
  have h: "SettingsService_retrieve (fresh_env True) = Inl ErrSettingsNotInit"
    by (simp add: fresh_env_def)
  from not_init_returns_without_effects [OF h, of mismatch_terminal] h show ?thesis by simp
qed

text \<open>
  Claim C10: in an interactive run that gets to \<open>SetupService.setup\<close>, the user of
  the payload is made of the three collected answers: the email that passed the
  validation, and what the username and password filters resolved with. The
  payload has no other field; the answer to the confirmation question is not in
  it.
\<close>

theorem payload_user_is_collected:
  assumes "Setup p \<in> set (fst (installInteractive E U))"
  shows "\<exists>un em pw.
           UsersService_isValidUsername E (in_username U) = Inr un
         \<and> reprompt validate_email (in_email U) = Resolved em
         \<and> UsersService_isValidPassword E (in_password U) = Inr pw
         \<and> payload_user p = \<lparr>email = em, username = un, password = pw\<rparr>"
  using assms
  by (auto simp add: trace_eqs split: outcome.splits sum.splits if_splits)

theorem payload_user_is_collected_witness:
  "Setup \<lparr>payload_settings = acme_settings, payload_user = acme_credentials\<rparr>
     \<in> set (fst (installInteractive (fresh_env False) acme_terminal))
   \<and> UsersService_isValidUsername (fresh_env False) (in_username acme_terminal) = Inr ''admin''
   \<and> reprompt validate_email (in_email acme_terminal) = Resolved ''a@b.com''
   \<and> UsersService_isValidPassword (fresh_env False) (in_password acme_terminal)
       = Inr ''Str0ngPass!''
   \<and> payload_user \<lparr>payload_settings = acme_settings, payload_user = acme_credentials\<rparr>
       = \<lparr>email = ''a@b.com'', username = ''admin'', password = ''Str0ngPass!''\<rparr>"
proof -
  have sent: "Setup \<lparr>payload_settings = acme_settings, payload_user = acme_credentials\<rparr>
                \<in> set (fst (installInteractive (fresh_env False) acme_terminal))"
    by (simp add: acme_run)
  have un: "UsersService_isValidUsername (fresh_env False) (in_username acme_terminal)
              = Inr ''admin''"
    and em: "reprompt validate_email (in_email acme_terminal) = Resolved ''a@b.com''"
    and pw: "UsersService_isValidPassword (fresh_env False) (in_password acme_terminal)
              = Inr ''Str0ngPass!''"
    by (simp_all add: example_defs validate_email_def)
  from payload_user_is_collected [OF sent] un em pw
  have "payload_user \<lparr>payload_settings = acme_settings, payload_user = acme_credentials\<rparr>
          = \<lparr>email = ''a@b.com'', username = ''admin'', password = ''Str0ngPass!''\<rparr>"
    by auto
  with sent un em pw show ?thesis by blast
qed

end
